theory Spec2Isabelle
  imports Main "HOL-Library.AList" "HOL-Library.Char_ord" "HOL-Library.List_Lexorder"
begin

section \<open>A low level GraphQL client: data model\<close>

text \<open>
  The development follows \<^verbatim>\<open>graphql.go\<close>. Go strings and byte buffers are
  \<^typ>\<open>string\<close> (lists of bytes). Values coming from the Go standard library
  (errors of the transport, of the context, of a reader, of the JSON decoder) are
  identified by their message.
\<close>

type_synonym bytes = string

text \<open>\<^verbatim>\<open>type graphErr struct { Message string }\<close>\<close>

record graphErr =
  Message :: string

text \<open>
  Go's \<^verbatim>\<open>error\<close> values that \<^verbatim>\<open>Run\<close> can return:
  an error handed over by a collaborator, \<^verbatim>\<open>errors.New(msg)\<close>,
  \<^verbatim>\<open>fmt.Errorf("<prefix>: %w", err)\<close>, the status code error
  \<^verbatim>\<open>fmt.Errorf("graphql: server returned a non-200 status code: %v", code)\<close>
  and a \<^verbatim>\<open>graphErr\<close> of the response envelope.
\<close>

datatype error =
    ErrorValue string
  | New string
  | Errorf string error
  | StatusCodeErrorf int
  | GraphErr graphErr

text \<open>Decimal printing of an integer, as \<^verbatim>\<open>%v\<close> and the JSON encoder do.\<close>

fun string_of_nat :: "nat \<Rightarrow> string" where
  "string_of_nat n =
     (if n < 10 then [char_of (48 + n)]
      else string_of_nat (n div 10) @ [char_of (48 + n mod 10)])"

declare string_of_nat.simps [simp del]

definition string_of_int :: "int \<Rightarrow> string" where
  "string_of_int i = (if i < 0 then CHR ''-'' # string_of_nat (nat (- i)) else string_of_nat (nat i))"

text \<open>\<^verbatim>\<open>func (e graphErr) Error() string { return "graphql: " + e.Message }\<close>\<close>

definition graphErr_Error :: "graphErr \<Rightarrow> string" where
  "graphErr_Error e = ''graphql: '' @ Message e"

fun Error :: "error \<Rightarrow> string" where
  "Error (ErrorValue s) = s"
| "Error (New s) = s"
| "Error (Errorf p e) = p @ '': '' @ Error e"
| "Error (StatusCodeErrorf code) =
     ''graphql: server returned a non-200 status code: '' @ string_of_int code"
| "Error (GraphErr e) = graphErr_Error e"

text \<open>
  A value of Go's \<^verbatim>\<open>any\<close>, as far as the JSON package is concerned: nil,
  booleans, integers, strings, slices, string-keyed maps (an association list, one
  entry per key) and structs (the fields in declaration order, under their JSON names).
  \<open>AnyUnsupported\<close> stands for a value that
  \<^verbatim>\<open>encoding/json\<close> refuses to encode (a channel, a function, a complex
  number). Floating point numbers are left out.
\<close>

datatype any =
    AnyNil
  | AnyBool bool
  | AnyInt int
  | AnyString string
  | AnySlice "any list"
  | AnyMap "(string \<times> any) list"
  | AnyStruct "(string \<times> any) list"
  | AnyUnsupported

text \<open>
  An \<^verbatim>\<open>io.Reader\<close> read to its end: the bytes it delivers, and the error
  that ends the stream if it is not \<^verbatim>\<open>io.EOF\<close>.
\<close>

datatype reader = Reader bytes "error option"

text \<open>\<^verbatim>\<open>io.Copy(dst, src)\<close> into an in-memory buffer.\<close>

fun io_Copy :: "reader \<Rightarrow> error + bytes" where
  "io_Copy (Reader bs None) = Inr bs"
| "io_Copy (Reader bs (Some e)) = Inl e"

text \<open>\<^verbatim>\<open>type File struct { Field string; Name string; R io.Reader }\<close>\<close>

record File =
  Field :: string
  Name :: string
  R :: reader

text \<open>
  \<^verbatim>\<open>http.Header\<close> is a \<^verbatim>\<open>map[string][]string\<close>: an association list
  with one entry per key. For the header of a \<^verbatim>\<open>Request\<close> the order of the
  list is the order in which \<^verbatim>\<open>range\<close> visits the map.
\<close>

type_synonym Header = "(string \<times> string list) list"

text \<open>
  \<^verbatim>\<open>type Request struct { q string; vars map[string]any; files []File; Header http.Header }\<close>.
  \<open>vars\<close> is \<open>None\<close> for the nil map.
\<close>

record Request =
  q :: string
  vars :: "(string \<times> any) list option"
  files :: "File list"
  Header :: Header

text \<open>\<^verbatim>\<open>context.Context\<close>: not done, or done with the error \<^verbatim>\<open>ctx.Err()\<close>.\<close>

datatype Context = Active | Signaled error

text \<open>
  The body of an outgoing request: the bytes of the JSON encoder, or the parts written
  to the \<^verbatim>\<open>multipart.Writer\<close>, in the order written, with the writer's
  boundary.
\<close>

datatype part =
    FormField string bytes
  | FormFile string string bytes

datatype body =
    Raw bytes
  | Multipart string "part list"

record http_request =
  Method :: string
  URL :: string
  header :: Header
  payload :: body
  ctx :: Context

record http_response =
  StatusCode :: int
  Body :: reader

text \<open>
  \<^verbatim>\<open>type Client struct { endpoint string; httpClient *http.Client; useMultipartForm bool; Log func(s string) }\<close>.
  An \<^verbatim>\<open>*http.Client\<close> is nil (\<open>None\<close>) or its \<^verbatim>\<open>Do\<close> method:
  the answer to an outgoing request is an error or a response. \<^verbatim>\<open>Log\<close> is
  taken to be a sink that returns; its calls are recorded in the outcome of
  \<^verbatim>\<open>Run\<close>.
\<close>

type_synonym http_Client = "http_request \<Rightarrow> error + http_response"

record Client =
  endpoint :: string
  httpClient :: "http_Client option"
  useMultipartForm :: bool

text \<open>\<^verbatim>\<open>type graphResponse struct { Data any; Errors []graphErr }\<close>.
  \<open>Data\<close> holds the \<^verbatim>\<open>resp\<close> argument of \<^verbatim>\<open>Run\<close>: \<open>None\<close> for
  nil, \<open>Some d\<close> for a pointer to the caller's destination, whose content is \<open>d\<close>.
  Writing through the pointer is an update of \<open>Data\<close>.\<close>

record 'd graphResponse =
  Data :: "'d option"
  Errors :: "graphErr list"

section \<open>The standard library\<close>

text \<open>
  What \<^verbatim>\<open>json.NewDecoder(&buf).Decode(&gr)\<close> leaves behind: the error it
  returns, whether the pointer \<^verbatim>\<open>gr\<close> is nil afterwards (the call receives the
  address of the pointer), and the struct \<^verbatim>\<open>gr\<close> pointed to, with the
  destination as the decoder left it.
\<close>

record 'd decoded =
  decode_err :: "error option"
  gr_nil :: bool
  gr_after :: "'d graphResponse"

text \<open>The calls on the \<^verbatim>\<open>multipart.Writer\<close> that return an error.\<close>

datatype multipart_call =
    WriteField string
  | CreateFormField string
  | CreateFormFile string string
  | Close

text \<open>
  The parts of the standard library that the client calls and that are not modelled
  further:
  \<^item> \<open>json_quote\<close>: the JSON encoder's string literal for a Go string;
  \<^item> \<open>json_Decode\<close>: the JSON decoder, applied to the buffered response body and
    the \<^verbatim>\<open>graphResponse\<close> prepared by the client;
  \<^item> \<open>http_NewRequest_err\<close>: the error of \<^verbatim>\<open>http.NewRequest\<close> for a URL
    (the method is always \<^verbatim>\<open>POST\<close>);
  \<^item> \<open>multipart_boundary\<close>: the boundary that \<^verbatim>\<open>multipart.NewWriter\<close>
    draws;
  \<^item> \<open>multipart_err\<close>: the error of a call on the \<^verbatim>\<open>multipart.Writer\<close>.
\<close>

record 'd stdlib =
  json_quote :: "string \<Rightarrow> bytes"
  json_Decode :: "bytes \<Rightarrow> 'd graphResponse \<Rightarrow> 'd decoded"
  http_NewRequest_err :: "string \<Rightarrow> error option"
  multipart_boundary :: string
  multipart_err :: "multipart_call \<Rightarrow> error option"

subsection \<open>encoding/json: the encoder\<close>

fun collect :: "('e + 'a) list \<Rightarrow> 'e + 'a list" where
  "collect [] = Inr []"
| "collect (Inl e # _) = Inl e"
| "collect (Inr x # xs) = (case collect xs of Inl e \<Rightarrow> Inl e | Inr ys \<Rightarrow> Inr (x # ys))"

fun commas :: "bytes list \<Rightarrow> bytes" where
  "commas [] = []"
| "commas [x] = x"
| "commas (x # xs) = x @ '','' @ commas xs"

text \<open>
  The encoding of a value: a map is written with its keys sorted bytewise, a struct
  with its fields in declaration order. The first value that cannot be encoded, in the
  order of writing, is the error.
\<close>

function (sequential) json_value :: "(string \<Rightarrow> bytes) \<Rightarrow> any \<Rightarrow> error + bytes" where
  "json_value qt AnyNil = Inr ''null''"
| "json_value qt (AnyBool b) = Inr (if b then ''true'' else ''false'')"
| "json_value qt (AnyInt i) = Inr (string_of_int i)"
| "json_value qt (AnyString s) = Inr (qt s)"
| "json_value qt (AnySlice xs) =
     (case collect (map (json_value qt) xs) of
        Inl e \<Rightarrow> Inl e
      | Inr ys \<Rightarrow> Inr (''['' @ commas ys @ '']''))"
| "json_value qt (AnyMap m) =
     (case collect (map (\<lambda>kv. case json_value qt (snd kv) of
                                Inl e \<Rightarrow> Inl e
                              | Inr b \<Rightarrow> Inr (qt (fst kv) @ '':'' @ b)) (sort_key fst m)) of
        Inl e \<Rightarrow> Inl e
      | Inr ys \<Rightarrow> Inr (''{'' @ commas ys @ ''}''))"
| "json_value qt (AnyStruct fs) =
     (case collect (map (\<lambda>kv. case json_value qt (snd kv) of
                                Inl e \<Rightarrow> Inl e
                              | Inr b \<Rightarrow> Inr ([CHR 0x22] @ fst kv @ [CHR 0x22] @ '':'' @ b)) fs) of
        Inl e \<Rightarrow> Inl e
      | Inr ys \<Rightarrow> Inr (''{'' @ commas ys @ ''}''))"
| "json_value qt AnyUnsupported = Inl (ErrorValue ''json: unsupported type'')"
  by pat_completeness auto
termination
proof (relation "measure (\<lambda>(qt, v). size v)")
  have member: "size b \<le> size_list (size_prod (\<lambda>x. 0) size) m"
    if "(a, b) \<in> set m" for a :: string and b :: any and m
    using that by (induction m) auto
  show "wf (measure (\<lambda>(qt :: string \<Rightarrow> bytes, v :: any). size v))"
    by simp
  show "((qt, x), qt, AnySlice xs) \<in> measure (\<lambda>(qt, v). size v)"
    if "x \<in> set xs" for qt :: "string \<Rightarrow> bytes" and xs and x :: any
    using that by (simp add: less_Suc_eq_le size_list_estimation')
  show "((qt, snd kv), qt, AnyMap m) \<in> measure (\<lambda>(qt, v). size v)"
    if "kv \<in> set (sort_key fst m)" for qt :: "string \<Rightarrow> bytes" and m and kv :: "string \<times> any"
    using that member [of "fst kv" "snd kv" m] by (simp add: less_Suc_eq_le)
  show "((qt, snd kv), qt, AnyStruct fs) \<in> measure (\<lambda>(qt, v). size v)"
    if "kv \<in> set fs" for qt :: "string \<Rightarrow> bytes" and fs and kv :: "string \<times> any"
    using that member [of "fst kv" "snd kv" fs] by (simp add: less_Suc_eq_le)
qed

text \<open>\<^verbatim>\<open>json.NewEncoder(w).Encode(v)\<close> writes the encoding and a newline, or nothing.\<close>

definition json_Encode :: "(string \<Rightarrow> bytes) \<Rightarrow> any \<Rightarrow> error + bytes" where
  "json_Encode qt v = (case json_value qt v of Inl e \<Rightarrow> Inl e | Inr b \<Rightarrow> Inr (b @ [CHR 0x0A]))"

subsection \<open>net/textproto and net/http: headers and requests\<close>

text \<open>
  \<^verbatim>\<open>textproto.CanonicalMIMEHeaderKey\<close>: a key with a byte that is not a token
  character is returned as it is; otherwise the first letter and every letter after a
  hyphen are made upper case, the other letters lower case.
\<close>

definition validHeaderFieldByte :: "char \<Rightarrow> bool" where
  "validHeaderFieldByte c =
     (let n = (of_char c :: nat) in
        (48 \<le> n \<and> n \<le> 57) \<or> (65 \<le> n \<and> n \<le> 90) \<or> (97 \<le> n \<and> n \<le> 122)
        \<or> c \<in> set ''!#$%&*+-.^_|~'' \<or> n = 39 \<or> n = 96)"

fun canonicalMIMEHeaderKey :: "bool \<Rightarrow> string \<Rightarrow> string" where
  "canonicalMIMEHeaderKey upper [] = []"
| "canonicalMIMEHeaderKey upper (c # cs) =
     (let n = (of_char c :: nat);
          c' = (if upper \<and> 97 \<le> n \<and> n \<le> 122 then char_of (n - 32)
                else if \<not> upper \<and> 65 \<le> n \<and> n \<le> 90 then char_of (n + 32)
                else c)
      in c' # canonicalMIMEHeaderKey (c' = CHR ''-'') cs)"

definition CanonicalMIMEHeaderKey :: "string \<Rightarrow> string" where
  "CanonicalMIMEHeaderKey s =
     (if list_all validHeaderFieldByte s then canonicalMIMEHeaderKey True s else s)"

text \<open>\<^verbatim>\<open>h[key]\<close> of a map of slices: the nil slice for a missing key.\<close>

definition Header_index :: "Header \<Rightarrow> string \<Rightarrow> string list" where
  "Header_index h key = (case map_of h key of None \<Rightarrow> [] | Some vs \<Rightarrow> vs)"

text \<open>\<^verbatim>\<open>func (h Header) Set(key, value string)\<close> replaces the values of the
  canonical key; \<^verbatim>\<open>Add\<close> appends to them; \<^verbatim>\<open>Values\<close> reads them;
  \<^verbatim>\<open>Get\<close> reads the first one.\<close>

definition Header_Set :: "Header \<Rightarrow> string \<Rightarrow> string \<Rightarrow> Header" where
  "Header_Set h key value = AList.update (CanonicalMIMEHeaderKey key) [value] h"

definition Header_Add :: "Header \<Rightarrow> string \<Rightarrow> string \<Rightarrow> Header" where
  "Header_Add h key value =
     AList.update (CanonicalMIMEHeaderKey key)
       (Header_index h (CanonicalMIMEHeaderKey key) @ [value]) h"

definition Header_Values :: "Header \<Rightarrow> string \<Rightarrow> string list" where
  "Header_Values h key = Header_index h (CanonicalMIMEHeaderKey key)"

definition Header_Get :: "Header \<Rightarrow> string \<Rightarrow> string" where
  "Header_Get h key = (case Header_Values h key of [] \<Rightarrow> [] | v # _ \<Rightarrow> v)"

text \<open>
  \<^verbatim>\<open>http.NewRequest(method, url, body)\<close>: an error for a URL that does not
  parse, otherwise a request with an empty header and the background context.
\<close>

definition http_NewRequest :: "'d stdlib \<Rightarrow> string \<Rightarrow> string \<Rightarrow> body \<Rightarrow> error + http_request" where
  "http_NewRequest L m u b =
     (case http_NewRequest_err L u of
        Some e \<Rightarrow> Inl e
      | None \<Rightarrow> Inr \<lparr>Method = m, URL = u, header = [], payload = b, ctx = Active\<rparr>)"

text \<open>\<^verbatim>\<open>func (w *Writer) FormDataContentType() string\<close>\<close>

definition FormDataContentType :: "'d stdlib \<Rightarrow> string" where
  "FormDataContentType L = ''multipart/form-data; boundary='' @ multipart_boundary L"

section \<open>The request\<close>

text \<open>\<^verbatim>\<open>func NewRequest(q string) *Request\<close>\<close>

definition NewRequest :: "string \<Rightarrow> Request" where
  "NewRequest query = \<lparr>q = query, vars = None, files = [], Header = []\<rparr>"

text \<open>\<^verbatim>\<open>func (req *Request) Var(key string, value any)\<close>\<close>

definition Var :: "Request \<Rightarrow> string \<Rightarrow> any \<Rightarrow> Request" where
  "Var req key value =
     req\<lparr>vars := Some (AList.update key value (case vars req of None \<Rightarrow> [] | Some m \<Rightarrow> m))\<rparr>"

text \<open>\<^verbatim>\<open>func (req *Request) File(fieldname, filename string, r io.Reader)\<close>\<close>

definition File :: "Request \<Rightarrow> string \<Rightarrow> string \<Rightarrow> reader \<Rightarrow> Request" where
  "File req fieldname filename r =
     req\<lparr>files := files req @ [\<lparr>Field = fieldname, Name = filename, R = r\<rparr>]\<rparr>"

text \<open>\<^verbatim>\<open>Vars\<close>, \<^verbatim>\<open>Files\<close> and \<^verbatim>\<open>Query\<close> read the fields.\<close>

definition Vars :: "Request \<Rightarrow> (string \<times> any) list option" where
  "Vars req = vars req"

definition Files :: "Request \<Rightarrow> File list" where
  "Files req = files req"

definition Query :: "Request \<Rightarrow> string" where
  "Query req = q req"

section \<open>The client\<close>

text \<open>
  \<^verbatim>\<open>type ClientOption func(*Client)\<close>, \<^verbatim>\<open>WithHTTPClient\<close>,
  \<^verbatim>\<open>UseMultipartForm\<close> and \<^verbatim>\<open>NewClient\<close>, which falls back on
  \<^verbatim>\<open>http.DefaultClient\<close>.
\<close>

type_synonym ClientOption = "Client \<Rightarrow> Client"

definition WithHTTPClient :: "http_Client option \<Rightarrow> ClientOption" where
  "WithHTTPClient httpclient = (\<lambda>client. client\<lparr>httpClient := httpclient\<rparr>)"

definition UseMultipartForm :: ClientOption where
  "UseMultipartForm = (\<lambda>client. client\<lparr>useMultipartForm := True\<rparr>)"

definition NewClient :: "http_Client \<Rightarrow> string \<Rightarrow> ClientOption list \<Rightarrow> Client" where
  "NewClient http_DefaultClient ep opts =
     (let c = foldl (\<lambda>c optionFunc. optionFunc c)
                \<lparr>endpoint = ep, httpClient = None, useMultipartForm = False\<rparr> opts
      in if httpClient c = None then c\<lparr>httpClient := Some http_DefaultClient\<rparr> else c)"

text \<open>
  What a call of \<^verbatim>\<open>Run\<close> does: it returns nil, returns an error or
  panics; it leaves the caller's destination in some state; it hands requests to the
  HTTP client; it calls \<^verbatim>\<open>Log\<close>. The arguments of the log calls are kept
  unformatted.
\<close>

datatype result = Ok | Err error | Panic

datatype log_entry =
    LogVariables "(string \<times> any) list option"
  | LogVariablesBuf bytes
  | LogFiles nat
  | LogQuery string
  | LogHeaders Header
  | LogResponse bytes

record 'd outcome =
  returned :: result
  dest :: "'d option"
  sent :: "http_request list"
  logged :: "log_entry list"

text \<open>
  The loop \<^verbatim>\<open>for key, values := range req.Header { for _, value := range values { r.Header.Add(key, value) } }\<close>
\<close>

definition addHeaders :: "Header \<Rightarrow> Header \<Rightarrow> Header" where
  "addHeaders h reqHeader =
     foldl (\<lambda>h (key, values). foldl (\<lambda>h value. Header_Add h key value) h values) h reqHeader"

text \<open>
  The two functions \<^verbatim>\<open>runWithJSON\<close> and \<^verbatim>\<open>runWithPostFields\<close> differ
  in how they build the body and in the value of \<^verbatim>\<open>Content-Type\<close>; from
  \<^verbatim>\<open>r.Header.Set("Content-Type", ...)\<close> on, their statements are the same, and
  are modelled once.

  \<open>outgoing\<close> is the request after
  \<^verbatim>\<open>r.Header.Set("Content-Type", contentType)\<close>,
  \<^verbatim>\<open>r.Header.Set("Accept", "application/json; charset=utf-8")\<close>, the loop over
  \<^verbatim>\<open>req.Header\<close> and \<^verbatim>\<open>r = r.WithContext(ctx)\<close>.
\<close>

definition outgoing :: "string \<Rightarrow> Request \<Rightarrow> Context \<Rightarrow> http_request \<Rightarrow> http_request" where
  "outgoing contentType req cx r0 =
     (let r1 = r0\<lparr>header := Header_Set (header r0) ''Content-Type'' contentType\<rparr>;
          r2 = r1\<lparr>header := Header_Set (header r1) ''Accept'' ''application/json; charset=utf-8''\<rparr>;
          r3 = r2\<lparr>header := addHeaders (header r2) (Header req)\<rparr>
      in r3\<lparr>ctx := cx\<rparr>)"

text \<open>
  \<open>exchange\<close> is the rest of both functions, from
  \<^verbatim>\<open>res, err := c.httpClient.Do(r)\<close> to the end: the call of the HTTP client
  (a nil client panics), the buffering of the response body, the decoding into
  \<^verbatim>\<open>gr\<close>, the status code looked at when the decoding fails, and the first
  error of the envelope (\<^verbatim>\<open>gr.Errors\<close> of a nil \<^verbatim>\<open>gr\<close> panics).
  \<open>log2\<close> is the log so far.
\<close>

definition exchange :: "'d stdlib \<Rightarrow> Client \<Rightarrow> http_request \<Rightarrow> log_entry list \<Rightarrow> 'd option \<Rightarrow> 'd outcome" where
  "exchange L c r log2 resp =
     (let gr = \<lparr>Data = resp, Errors = []\<rparr>
      in case httpClient c of
        None \<Rightarrow> \<lparr>returned = Panic, dest = resp, sent = [], logged = log2\<rparr>
      | Some do \<Rightarrow>
         (case do r of
            Inl e \<Rightarrow> \<lparr>returned = Err e, dest = resp, sent = [r], logged = log2\<rparr>
          | Inr res \<Rightarrow>
             (case io_Copy (Body res) of
                Inl e \<Rightarrow>
                  \<lparr>returned = Err (Errorf ''reading body'' e), dest = resp,
                   sent = [r], logged = log2\<rparr>
              | Inr buf \<Rightarrow>
                 (let log3 = log2 @ [LogResponse buf];
                      d = json_Decode L buf gr
                  in case decode_err d of
                    Some e \<Rightarrow>
                      \<lparr>returned =
                         (if StatusCode res \<noteq> 200
                          then Err (StatusCodeErrorf (StatusCode res))
                          else Err (Errorf ''decoding response'' e)),
                       dest = Data (gr_after d), sent = [r], logged = log3\<rparr>
                  | None \<Rightarrow>
                      \<lparr>returned =
                         (if gr_nil d then Panic
                          else if length (Errors (gr_after d)) > 0
                          then Err (GraphErr (Errors (gr_after d) ! 0))
                          else Ok),
                       dest = Data (gr_after d), sent = [r], logged = log3\<rparr>))))"

text \<open>\<^verbatim>\<open>func (c *Client) runWithJSON(ctx context.Context, req *Request, resp any) error\<close>\<close>

definition runWithJSON :: "'d stdlib \<Rightarrow> Client \<Rightarrow> Context \<Rightarrow> Request \<Rightarrow> 'd option \<Rightarrow> 'd outcome" where
  "runWithJSON L c cx req resp =
     (let requestBodyObj =
            AnyStruct [(''query'', AnyString (q req)),
                       (''variables'', case vars req of None \<Rightarrow> AnyNil | Some m \<Rightarrow> AnyMap m)]
      in case json_Encode (json_quote L) requestBodyObj of
        Inl e \<Rightarrow>
          \<lparr>returned = Err (Errorf ''encode body'' e), dest = resp, sent = [], logged = []\<rparr>
      | Inr requestBody \<Rightarrow>
         (let log1 = [LogVariables (vars req), LogQuery (q req)]
          in case http_NewRequest L ''POST'' (endpoint c) (Raw requestBody) of
            Inl e \<Rightarrow> \<lparr>returned = Err e, dest = resp, sent = [], logged = log1\<rparr>
          | Inr r0 \<Rightarrow>
             (let r = outgoing ''application/json; charset=utf-8'' req cx r0
              in exchange L c r (log1 @ [LogHeaders (header r)]) resp)))"

text \<open>
  The loop \<^verbatim>\<open>for i := range req.files\<close> of \<^verbatim>\<open>runWithPostFields\<close>: a
  form file part per attachment, filled with \<^verbatim>\<open>io.Copy\<close> from its reader.
\<close>

fun filesLoop :: "'d stdlib \<Rightarrow> File list \<Rightarrow> part list \<Rightarrow> error + part list" where
  "filesLoop L [] parts = Inr parts"
| "filesLoop L (f # fs) parts =
     (case multipart_err L (CreateFormFile (Field f) (Name f)) of
        Some e \<Rightarrow> Inl (Errorf ''create form file'' e)
      | None \<Rightarrow>
         (case io_Copy (R f) of
            Inl e \<Rightarrow> Inl (Errorf ''preparing file'' e)
          | Inr bs \<Rightarrow> filesLoop L fs (parts @ [FormFile (Field f) (Name f) bs])))"

text \<open>
  The block \<^verbatim>\<open>if len(req.vars) > 0 { ... }\<close> of \<^verbatim>\<open>runWithPostFields\<close>:
  the form field written for the variables, if any, and the content of
  \<^verbatim>\<open>variablesBuf\<close>, or the error returned.
  \<^verbatim>\<open>len(req.vars) > 0\<close> is false for the nil map.
\<close>

definition variablesField :: "'d stdlib \<Rightarrow> Request \<Rightarrow> error + part list \<times> bytes" where
  "variablesField L req =
     (case vars req of
        None \<Rightarrow> Inr ([], [])
      | Some m \<Rightarrow>
          if length m > 0 then
            (case multipart_err L (CreateFormField ''variables'') of
               Some e \<Rightarrow> Inl (Errorf ''create variables field'' e)
             | None \<Rightarrow>
                (case json_Encode (json_quote L) (AnyMap m) of
                   Inl e \<Rightarrow> Inl (Errorf ''encode variables'' e)
                 | Inr b \<Rightarrow> Inr ([FormField ''variables'' b], b)))
          else Inr ([], []))"

text \<open>
  The first part of \<^verbatim>\<open>runWithPostFields\<close>, up to \<^verbatim>\<open>writer.Close()\<close>:
  the parts written and the content of \<^verbatim>\<open>variablesBuf\<close>, or the error
  returned.
\<close>

definition formBody :: "'d stdlib \<Rightarrow> Request \<Rightarrow> error + part list \<times> bytes" where
  "formBody L req =
     (case multipart_err L (WriteField ''query'') of
        Some e \<Rightarrow> Inl (Errorf ''write query field'' e)
      | None \<Rightarrow>
         (case variablesField L req of
            Inl e \<Rightarrow> Inl e
          | Inr (variables, variablesBuf) \<Rightarrow>
             (case filesLoop L (files req) ([FormField ''query'' (q req)] @ variables) of
                Inl e \<Rightarrow> Inl e
              | Inr parts \<Rightarrow>
                 (case multipart_err L Close of
                    Some e \<Rightarrow> Inl (Errorf ''close writer'' e)
                  | None \<Rightarrow> Inr (parts, variablesBuf)))))"

text \<open>\<^verbatim>\<open>func (c *Client) runWithPostFields(ctx context.Context, req *Request, resp any) error\<close>\<close>

definition runWithPostFields :: "'d stdlib \<Rightarrow> Client \<Rightarrow> Context \<Rightarrow> Request \<Rightarrow> 'd option \<Rightarrow> 'd outcome" where
  "runWithPostFields L c cx req resp =
     (case formBody L req of
        Inl e \<Rightarrow> \<lparr>returned = Err e, dest = resp, sent = [], logged = []\<rparr>
      | Inr (parts, variablesBuf) \<Rightarrow>
         (let log1 = [LogVariablesBuf variablesBuf, LogFiles (length (files req)),
                      LogQuery (q req)]
          in case http_NewRequest L ''POST'' (endpoint c)
                    (Multipart (multipart_boundary L) parts) of
            Inl e \<Rightarrow> \<lparr>returned = Err e, dest = resp, sent = [], logged = log1\<rparr>
          | Inr r0 \<Rightarrow>
             (let r = outgoing (FormDataContentType L) req cx r0
              in exchange L c r (log1 @ [LogHeaders (header r)]) resp)))"

text \<open>
  \<^verbatim>\<open>func (c *Client) Run(ctx context.Context, req *Request, resp any) error\<close>.
  The \<^verbatim>\<open>select\<close> takes the \<^verbatim>\<open>ctx.Done()\<close> case when the context is
  done, the default case otherwise.
\<close>

definition Run :: "'d stdlib \<Rightarrow> Client \<Rightarrow> Context \<Rightarrow> Request \<Rightarrow> 'd option \<Rightarrow> 'd outcome" where
  "Run L c cx req resp =
     (case cx of
        Signaled e \<Rightarrow> \<lparr>returned = Err e, dest = resp, sent = [], logged = []\<rparr>
      | Active \<Rightarrow>
          if length (files req) > 0 \<and> \<not> useMultipartForm c
          then \<lparr>returned = Err (New ''cannot send files with PostFields option''),
                dest = resp, sent = [], logged = []\<rparr>
          else if useMultipartForm c then runWithPostFields L c cx req resp
          else runWithJSON L c cx req resp)"

section \<open>A model of the JSON decoder on the response envelope\<close>

text \<open>
  How \<^verbatim>\<open>encoding/json\<close> stores a JSON document into
  \<^verbatim>\<open>&gr\<close>, for \<^verbatim>\<open>gr = &graphResponse{Data: resp}\<close>. The scanner is a
  parameter \<open>parse\<close>: the first JSON value of the body (a tree of \<^typ>\<open>any\<close>, an
  object being an \<open>AnyMap\<close> with its members in the order of the text), or
  \<open>None\<close> for a syntax error. How a JSON value is stored into the destination
  depends on the Go type of the destination and is the parameter \<open>bind\<close>; the
  destination is not itself a pointer. The messages of the decoder's errors are
  abbreviated. The model is exact for documents whose keys are ASCII and in which no
  member occurs twice: the folding of letters outside ASCII, and what a second
  \<^verbatim>\<open>data\<close> or \<^verbatim>\<open>errors\<close> member finds left by the first, are not
  modelled.

  \<^item> A syntax error is found before anything is stored.
  \<^item> The document \<^verbatim>\<open>null\<close> sets the pointer \<^verbatim>\<open>gr\<close> to nil.
  \<^item> Any other document that is not an object is a type error.
  \<^item> The members of an object are stored in order; a key matches a field when they
    are equal up to the case of letters; other keys are skipped; of the type errors
    met on the way the first is returned, and the decoder carries on after it.
  \<^item> The \<^verbatim>\<open>Data\<close> field holds the pointer \<^verbatim>\<open>resp\<close>, so the value
    of \<^verbatim>\<open>data\<close> is stored into the caller's destination, in place, unless
    it is \<^verbatim>\<open>null\<close> or \<^verbatim>\<open>resp\<close> is nil.
\<close>

definition toLower :: "char \<Rightarrow> char" where
  "toLower c = (let n = (of_char c :: nat) in if 65 \<le> n \<and> n \<le> 90 then char_of (n + 32) else c)"

definition equalFold :: "string \<Rightarrow> string \<Rightarrow> bool" where
  "equalFold a b = (map toLower a = map toLower b)"

definition firstError :: "error option \<Rightarrow> error option \<Rightarrow> error option" where
  "firstError saved e = (case saved of None \<Rightarrow> e | Some _ \<Rightarrow> saved)"

definition unmarshalTypeError :: "string \<Rightarrow> error" where
  "unmarshalTypeError field = ErrorValue (''json: cannot unmarshal into Go struct field '' @ field)"

text \<open>A JSON value stored into a zero \<^verbatim>\<open>graphErr\<close>.\<close>

definition decode_graphErr :: "any \<Rightarrow> error option \<times> graphErr" where
  "decode_graphErr v =
     (case v of
        AnyNil \<Rightarrow> (None, \<lparr>Message = []\<rparr>)
      | AnyMap members \<Rightarrow>
          foldl (\<lambda>(saved, g) (key, x).
                   if equalFold key ''Message'' then
                     (case x of
                        AnyString m \<Rightarrow> (saved, g\<lparr>Message := m\<rparr>)
                      | AnyNil \<Rightarrow> (saved, g)
                      | _ \<Rightarrow> (firstError saved (Some (unmarshalTypeError ''graphErr.Message'')), g))
                   else (saved, g))
            (None, \<lparr>Message = []\<rparr>) members
      | _ \<Rightarrow> (Some (unmarshalTypeError ''graphResponse.Errors''), \<lparr>Message = []\<rparr>))"

text \<open>The value of the member \<^verbatim>\<open>errors\<close> stored into \<^verbatim>\<open>gr.Errors\<close>.\<close>

definition decode_Errors :: "any \<Rightarrow> 'd graphResponse \<Rightarrow> error option \<times> 'd graphResponse" where
  "decode_Errors v gr =
     (case v of
        AnyNil \<Rightarrow> (None, gr\<lparr>Errors := []\<rparr>)
      | AnySlice xs \<Rightarrow>
          (foldl firstError None (map (fst \<circ> decode_graphErr) xs),
           gr\<lparr>Errors := map (snd \<circ> decode_graphErr) xs\<rparr>)
      | _ \<Rightarrow> (Some (unmarshalTypeError ''graphResponse.Errors''), gr))"

text \<open>The value of the member \<^verbatim>\<open>data\<close> stored through \<^verbatim>\<open>gr.Data\<close>.\<close>

definition decode_Data :: "(any \<Rightarrow> 'd \<Rightarrow> error option \<times> 'd) \<Rightarrow> any \<Rightarrow> 'd graphResponse \<Rightarrow> error option \<times> 'd graphResponse" where
  "decode_Data bind v gr =
     (case Data gr of
        None \<Rightarrow> (None, gr)
      | Some d \<Rightarrow>
          (case v of
             AnyNil \<Rightarrow> (None, gr)
           | _ \<Rightarrow> (case bind v d of (e, d') \<Rightarrow> (e, gr\<lparr>Data := Some d'\<rparr>))))"

definition goDecode :: "(bytes \<Rightarrow> any option) \<Rightarrow> (any \<Rightarrow> 'd \<Rightarrow> error option \<times> 'd) \<Rightarrow> bytes \<Rightarrow> 'd graphResponse \<Rightarrow> 'd decoded" where
  "goDecode parse bind buf gr =
     (case parse buf of
        None \<Rightarrow>
          \<lparr>decode_err = Some (ErrorValue ''invalid character''), gr_nil = False, gr_after = gr\<rparr>
      | Some AnyNil \<Rightarrow> \<lparr>decode_err = None, gr_nil = True, gr_after = gr\<rparr>
      | Some (AnyMap members) \<Rightarrow>
          (case foldl (\<lambda>(saved, g) (key, v).
                         if equalFold key ''Data'' then
                           (case decode_Data bind v g of (e, g') \<Rightarrow> (firstError saved e, g'))
                         else if equalFold key ''Errors'' then
                           (case decode_Errors v g of (e, g') \<Rightarrow> (firstError saved e, g'))
                         else (saved, g))
                  (None, gr) members of
             (saved, g) \<Rightarrow> \<lparr>decode_err = saved, gr_nil = False, gr_after = g\<rparr>)
      | Some _ \<Rightarrow>
          \<lparr>decode_err = Some (unmarshalTypeError ''graphResponse''), gr_nil = False,
           gr_after = gr\<rparr>)"

text \<open>
  A destination of type \<^verbatim>\<open>map[string]interface{}\<close>, as in the tests
  (\<^verbatim>\<open>var responseData map[string]interface{}\<close>): \<open>None\<close> is the nil map. A
  JSON object is stored key by key into the map, which is made if it is nil; any other
  value is a type error.
\<close>

definition bind_map :: "any \<Rightarrow> (string \<times> any) list option \<Rightarrow> error option \<times> (string \<times> any) list option" where
  "bind_map v d =
     (case v of
        AnyMap members \<Rightarrow>
          (None, Some (foldl (\<lambda>m (key, x). AList.update key x m)
                         (case d of None \<Rightarrow> [] | Some m \<Rightarrow> m) members))
      | _ \<Rightarrow> (Some (unmarshalTypeError ''graphResponse.Data''), d))"

text \<open>
  The encoder's string literal for a string of printable ASCII characters other than
  \<^verbatim>\<open><\<close>, \<^verbatim>\<open>>\<close> and \<^verbatim>\<open>&\<close>: the string between double quotes, with a
  backslash before a double quote and before a backslash.
\<close>

definition quote_ascii :: "string \<Rightarrow> bytes" where
  "quote_ascii s =
     [CHR 0x22] @ concat (map (\<lambda>c. if c = CHR 0x22 \<or> c = CHR 0x5C then [CHR 0x5C, c] else [c]) s)
     @ [CHR 0x22]"

text \<open>
  The scanner on the response bodies used below: a body with data as the tests of the
  repository serve it (up to white space), a body with two errors, a body with data
  and an error, and the body \<^verbatim>\<open>null\<close>. Any other body used below is not JSON.
\<close>

definition documents :: "bytes \<Rightarrow> any option" where
  \<open>documents buf =
     (if buf = ''{"data":{"something":"yes"}}''
      then Some (AnyMap [(''data'', AnyMap [(''something'', AnyString ''yes'')])])
      else if buf = ''{"errors":[{"message":"bad"},{"message":"worse"}]}''
      then Some (AnyMap [(''errors'',
                  AnySlice [AnyMap [(''message'', AnyString ''bad'')],
                            AnyMap [(''message'', AnyString ''worse'')]])])
      else if buf = ''{"data":{"something":"yes"},"errors":[{"message":"bad"}]}''
      then Some (AnyMap [(''data'', AnyMap [(''something'', AnyString ''yes'')]),
                         (''errors'', AnySlice [AnyMap [(''message'', AnyString ''bad'')]])])
      else if buf = ''null'' then Some AnyNil
      else None)\<close>

text \<open>
  A standard library for the examples: every URL parses, no call on the multipart
  writer fails, and the destination is a \<^verbatim>\<open>map[string]interface{}\<close>.
\<close>

definition go_stdlib :: "(string \<times> any) list option stdlib" where
  "go_stdlib =
     \<lparr>json_quote = quote_ascii,
      json_Decode = goDecode documents bind_map,
      http_NewRequest_err = (\<lambda>u. None),
      multipart_boundary = ''1c0ffee'',
      multipart_err = (\<lambda>call. None)\<rparr>"

text \<open>A server that answers every request with the given status code and body.\<close>

definition server :: "int \<Rightarrow> bytes \<Rightarrow> http_Client" where
  "server code b = (\<lambda>r. Inr \<lparr>StatusCode = code, Body = Reader b None\<rparr>)"

text \<open>The requests and clients of the examples.\<close>

definition files_request :: Request where
  "files_request =
     File (NewRequest ''query {}'') ''file'' ''filename.txt'' (Reader ''This is a file'' None)"

definition json_client :: "int \<Rightarrow> bytes \<Rightarrow> Client" where
  "json_client code b =
     NewClient (server 200 []) ''https://example.com/graphql''
       [WithHTTPClient (Some (server code b))]"

definition multipart_client :: "int \<Rightarrow> bytes \<Rightarrow> Client" where
  "multipart_client code b =
     NewClient (server 200 []) ''https://example.com/graphql''
       [WithHTTPClient (Some (server code b)), UseMultipartForm]"

definition canceled :: Context where
  "canceled = Signaled (ErrorValue ''context canceled'')"

text \<open>
  The request that a client sends for \<^verbatim>\<open>NewRequest("query {}")\<close> with the
  example library, in JSON mode and in multipart mode.
\<close>

definition json_request :: http_request where
  \<open>json_request =
     \<lparr>Method = ''POST'', URL = ''https://example.com/graphql'',
      header = [(''Content-Type'', [''application/json; charset=utf-8'']),
                (''Accept'', [''application/json; charset=utf-8''])],
      payload = Raw ''{"query":"query {}","variables":null}\<newline>'',
      ctx = Active\<rparr>\<close>

definition multipart_request :: http_request where
  \<open>multipart_request =
     \<lparr>Method = ''POST'', URL = ''https://example.com/graphql'',
      header = [(''Content-Type'', [''multipart/form-data; boundary=1c0ffee'']),
                (''Accept'', [''application/json; charset=utf-8''])],
      payload = Multipart ''1c0ffee'' [FormField ''query'' ''query {}''],
      ctx = Active\<rparr>\<close>

text \<open>Requests with a variable, with a file and with headers, and what is sent for them.\<close>

definition vars_request :: Request where
  "vars_request = Var (NewRequest ''query {}'') ''username'' (AnyString ''matryer'')"

definition json_vars_request :: http_request where
  \<open>json_vars_request =
     \<lparr>Method = ''POST'', URL = ''https://example.com/graphql'',
      header = [(''Content-Type'', [''application/json; charset=utf-8'']),
                (''Accept'', [''application/json; charset=utf-8''])],
      payload = Raw ''{"query":"query {}","variables":{"username":"matryer"}}\<newline>'',
      ctx = Active\<rparr>\<close>

definition upload_request :: Request where
  "upload_request =
     File (Var (NewRequest ''query {}'') ''username'' (AnyString ''matryer''))
       ''file'' ''filename.txt'' (Reader ''This is a file'' None)"

definition multipart_upload_request :: http_request where
  \<open>multipart_upload_request =
     \<lparr>Method = ''POST'', URL = ''https://example.com/graphql'',
      header = [(''Content-Type'', [''multipart/form-data; boundary=1c0ffee'']),
                (''Accept'', [''application/json; charset=utf-8''])],
      payload = Multipart ''1c0ffee''
                  [FormField ''query'' ''query {}'',
                   FormField ''variables'' ''{"username":"matryer"}\<newline>'',
                   FormFile ''file'' ''filename.txt'' ''This is a file''],
      ctx = Active\<rparr>\<close>

definition header_request :: Request where
  "header_request =
     (NewRequest ''query {}'')
       \<lparr>Header := [(''X-Custom-Header'', [''123'']), (''content-type'', [''text/plain''])]\<rparr>"

definition json_header_request :: http_request where
  \<open>json_header_request =
     \<lparr>Method = ''POST'', URL = ''https://example.com/graphql'',
      header = [(''Content-Type'', [''application/json; charset=utf-8'', ''text/plain'']),
                (''Accept'', [''application/json; charset=utf-8'']),
                (''X-Custom-Header'', [''123''])],
      payload = Raw ''{"query":"query {}","variables":null}\<newline>'',
      ctx = Active\<rparr>\<close>

section \<open>The phases of a call\<close>

lemma sent_exchange:
  "sent (exchange L c r log2 resp) = (if httpClient c = None then [] else [r])"
  by (simp add: exchange_def Let_def split: option.split sum.split)

lemma exchange_response:
  assumes "httpClient c = Some do" and "do r = Inr res" and "io_Copy (Body res) = Inr buf"
  shows "exchange L c r log2 resp =
     (let d = json_Decode L buf \<lparr>Data = resp, Errors = []\<rparr>
      in \<lparr>returned =
           (case decode_err d of
              Some e \<Rightarrow> if StatusCode res \<noteq> 200 then Err (StatusCodeErrorf (StatusCode res))
                         else Err (Errorf ''decoding response'' e)
            | None \<Rightarrow> if gr_nil d then Panic
                       else if length (Errors (gr_after d)) > 0
                       then Err (GraphErr (Errors (gr_after d) ! 0)) else Ok),
          dest = Data (gr_after d), sent = [r], logged = log2 @ [LogResponse buf]\<rparr>)"
  using assms by (simp add: exchange_def Let_def split: option.split)

lemma runWithJSON_sent:
  assumes "sent (runWithJSON L c cx req resp) = [r]"
  shows "\<exists>b r0 log2.
           json_Encode (json_quote L)
             (AnyStruct [(''query'', AnyString (q req)),
                         (''variables'', case vars req of None \<Rightarrow> AnyNil | Some m \<Rightarrow> AnyMap m)]) = Inr b
         \<and> http_NewRequest L ''POST'' (endpoint c) (Raw b) = Inr r0
         \<and> r = outgoing ''application/json; charset=utf-8'' req cx r0
         \<and> runWithJSON L c cx req resp = exchange L c r log2 resp"
  using assms
  by (auto simp: runWithJSON_def Let_def sent_exchange split: sum.splits if_splits)

lemma runWithPostFields_sent:
  assumes "sent (runWithPostFields L c cx req resp) = [r]"
  shows "\<exists>parts vb r0 log2.
           formBody L req = Inr (parts, vb)
         \<and> http_NewRequest L ''POST'' (endpoint c) (Multipart (multipart_boundary L) parts) = Inr r0
         \<and> r = outgoing (FormDataContentType L) req cx r0
         \<and> runWithPostFields L c cx req resp = exchange L c r log2 resp"
  using assms
  by (auto simp: runWithPostFields_def Let_def sent_exchange split: sum.splits if_splits prod.splits)

lemma Run_sent:
  assumes "sent (Run L c cx req resp) = [r]"
  shows "cx = Active \<and> (files req = [] \<or> useMultipartForm c)
       \<and> Run L c cx req resp =
           (if useMultipartForm c then runWithPostFields L c cx req resp
            else runWithJSON L c cx req resp)"
  using assms by (auto simp: Run_def split: Context.splits if_splits)

lemma Run_exchange:
  assumes "sent (Run L c cx req resp) = [r]"
  shows "\<exists>log2. Run L c cx req resp = exchange L c r log2 resp"
proof (cases "useMultipartForm c")
  case True
  with Run_sent [OF assms] have "Run L c cx req resp = runWithPostFields L c cx req resp"
    by auto
  with assms runWithPostFields_sent [of L c cx req resp r] show ?thesis by auto
next
  case False
  with Run_sent [OF assms] have "Run L c cx req resp = runWithJSON L c cx req resp"
    by auto
  with assms runWithJSON_sent [of L c cx req resp r] show ?thesis by auto
qed

text \<open>
  Conversely, a request is handed to the HTTP client whenever the context is not
  signaled, the files are allowed, the body can be built and the URL parses.
\<close>

lemma Run_JSON_sends:
  assumes "\<not> useMultipartForm c" and "files req = []" and "httpClient c = Some do"
    and "json_Encode (json_quote L)
           (AnyStruct [(''query'', AnyString (q req)),
                       (''variables'', case vars req of None \<Rightarrow> AnyNil | Some m \<Rightarrow> AnyMap m)]) = Inr b"
    and "http_NewRequest_err L (endpoint c) = None"
  shows "sent (Run L c Active req resp) =
           [outgoing ''application/json; charset=utf-8'' req Active
              \<lparr>Method = ''POST'', URL = endpoint c, header = [], payload = Raw b, ctx = Active\<rparr>]"
  using assms
  by (simp add: Run_def runWithJSON_def Let_def http_NewRequest_def sent_exchange)

lemma Run_multipart_sends:
  assumes "useMultipartForm c" and "httpClient c = Some do"
    and "formBody L req = Inr (parts, vb)"
    and "http_NewRequest_err L (endpoint c) = None"
  shows "sent (Run L c Active req resp) =
           [outgoing (FormDataContentType L) req Active
              \<lparr>Method = ''POST'', URL = endpoint c, header = [],
               payload = Multipart (multipart_boundary L) parts, ctx = Active\<rparr>]"
  using assms
  by (simp add: Run_def runWithPostFields_def Let_def http_NewRequest_def sent_exchange)

text \<open>
  Once a request has been handed to the HTTP client, the client has answered and the
  body has been read, the outcome is decided by the decoder and the status code.
\<close>

lemma Run_response:
  assumes "sent (Run L c cx req resp) = [r]"
    and "httpClient c = Some do" and "do r = Inr res" and "io_Copy (Body res) = Inr buf"
  shows "returned (Run L c cx req resp) =
           (case decode_err (json_Decode L buf \<lparr>Data = resp, Errors = []\<rparr>) of
              Some e \<Rightarrow> if StatusCode res \<noteq> 200 then Err (StatusCodeErrorf (StatusCode res))
                         else Err (Errorf ''decoding response'' e)
            | None \<Rightarrow>
                if gr_nil (json_Decode L buf \<lparr>Data = resp, Errors = []\<rparr>) then Panic
                else if length (Errors (gr_after (json_Decode L buf \<lparr>Data = resp, Errors = []\<rparr>))) > 0
                then Err (GraphErr (Errors (gr_after (json_Decode L buf \<lparr>Data = resp, Errors = []\<rparr>)) ! 0))
                else Ok)"
    and "dest (Run L c cx req resp) =
           Data (gr_after (json_Decode L buf \<lparr>Data = resp, Errors = []\<rparr>))"
proof -
  from Run_exchange [OF assms(1)] obtain log2
    where run: "Run L c cx req resp = exchange L c r log2 resp" by blast
  note ex = exchange_response [OF assms(2-4), of L log2 resp]
  from run ex show "dest (Run L c cx req resp) =
           Data (gr_after (json_Decode L buf \<lparr>Data = resp, Errors = []\<rparr>))"
    by (simp add: Let_def)
  from run ex show "returned (Run L c cx req resp) =
           (case decode_err (json_Decode L buf \<lparr>Data = resp, Errors = []\<rparr>) of
              Some e \<Rightarrow> if StatusCode res \<noteq> 200 then Err (StatusCodeErrorf (StatusCode res))
                         else Err (Errorf ''decoding response'' e)
            | None \<Rightarrow>
                if gr_nil (json_Decode L buf \<lparr>Data = resp, Errors = []\<rparr>) then Panic
                else if length (Errors (gr_after (json_Decode L buf \<lparr>Data = resp, Errors = []\<rparr>))) > 0
                then Err (GraphErr (Errors (gr_after (json_Decode L buf \<lparr>Data = resp, Errors = []\<rparr>)) ! 0))
                else Ok)"
    by (simp add: Let_def)
qed

text \<open>The body of a request in JSON mode.\<close>

lemma collect_Inr:
  "collect (map f xs) = Inr ys \<longleftrightarrow> list_all2 (\<lambda>x y. f x = Inr y) xs ys"
proof (induction xs arbitrary: ys)
  case Nil
  then show ?case by auto
next
  case (Cons x xs)
  show ?case
  proof (cases "f x")
    case (Inl e)
    then show ?thesis by (auto simp: list_all2_Cons1)
  next
    case (Inr y)
    with Cons show ?thesis
      by (cases "collect (map f xs)") (auto simp: list_all2_Cons1)
  qed
qed

lemma http_NewRequest_Inr:
  assumes "http_NewRequest L m u b = Inr r0"
  shows "r0 = \<lparr>Method = m, URL = u, header = [], payload = b, ctx = Active\<rparr>"
  using assms by (simp add: http_NewRequest_def split: option.splits)

lemma outgoing_fields:
  "payload (outgoing contentType req cx r0) = payload r0"
  "Method (outgoing contentType req cx r0) = Method r0"
  "URL (outgoing contentType req cx r0) = URL r0"
  "ctx (outgoing contentType req cx r0) = cx"
  "header (outgoing contentType req cx r0) =
     addHeaders (Header_Set (Header_Set (header r0) ''Content-Type'' contentType)
                   ''Accept'' ''application/json; charset=utf-8'') (Header req)"
  by (simp_all add: outgoing_def Let_def)

lemma json_value_requestBodyObj:
  "json_value qt (AnyStruct [(''query'', AnyString query), (''variables'', v)]) =
     (case json_value qt v of
        Inl e \<Rightarrow> Inl e
      | Inr b \<Rightarrow> Inr (''{'' @ [CHR 0x22] @ ''query'' @ [CHR 0x22] @ '':'' @ qt query @ '',''
                      @ [CHR 0x22] @ ''variables'' @ [CHR 0x22] @ '':'' @ b @ ''}''))"
  by (simp split: sum.split)

lemma json_value_AnyMap:
  assumes "json_value qt (AnyMap m) = Inr b"
  shows "\<exists>members. list_all2 (\<lambda>kv mb. \<exists>v. json_value qt (snd kv) = Inr v \<and> mb = qt (fst kv) @ '':'' @ v)
                  (sort_key fst m) members
              \<and> b = ''{'' @ commas members @ ''}''"
proof -
  have *: "(case json_value qt (snd kv) of Inl e \<Rightarrow> Inl e | Inr b \<Rightarrow> Inr (qt (fst kv) @ '':'' @ b)) = Inr mb
      \<longleftrightarrow> (\<exists>v. json_value qt (snd kv) = Inr v \<and> mb = qt (fst kv) @ '':'' @ v)" for kv mb
    by (auto split: sum.splits)
  from assms show ?thesis
    by (auto simp: collect_Inr * split: sum.splits)
qed

text \<open>The body of a request in multipart mode.\<close>

lemma io_Copy_Inr: "io_Copy rd = Inr bs \<longleftrightarrow> rd = Reader bs None"
  by (cases rd rule: io_Copy.cases) auto

lemma filesLoop_Inr:
  assumes "filesLoop L fs ps = Inr ps'"
  shows "\<exists>fileParts. ps' = ps @ fileParts
           \<and> list_all2 (\<lambda>f p. \<exists>bs. R f = Reader bs None \<and> p = FormFile (Field f) (Name f) bs)
                fs fileParts"
  using assms
proof (induction fs arbitrary: ps)
  case Nil
  then show ?case by simp
next
  case (Cons f fs)
  from Cons.prems obtain bs where copy: "io_Copy (R f) = Inr bs"
    and rest: "filesLoop L fs (ps @ [FormFile (Field f) (Name f) bs]) = Inr ps'"
    by (auto split: option.splits sum.splits)
  from Cons.IH [OF rest] obtain fileParts where
    "ps' = (ps @ [FormFile (Field f) (Name f) bs]) @ fileParts"
    and "list_all2 (\<lambda>f p. \<exists>bs. R f = Reader bs None \<and> p = FormFile (Field f) (Name f) bs)
           fs fileParts"
    by blast
  with copy show ?case
    by (auto simp: io_Copy_Inr list_all2_Cons1)
qed

lemma variablesField_Inr:
  assumes "variablesField L req = Inr (variables, vb)"
  shows "case vars req of
              None \<Rightarrow> variables = []
            | Some m \<Rightarrow>
                if length m > 0
                then \<exists>b. json_Encode (json_quote L) (AnyMap m) = Inr b
                       \<and> variables = [FormField ''variables'' b]
                else variables = []"
  using assms
  by (auto simp: variablesField_def split: option.splits sum.splits if_splits)

lemma formBody_Inr:
  assumes "formBody L req = Inr (parts, vb)"
  shows "\<exists>variables fileParts.
           parts = FormField ''query'' (q req) # variables @ fileParts
         \<and> (case vars req of
              None \<Rightarrow> variables = []
            | Some m \<Rightarrow>
                if length m > 0
                then \<exists>b. json_Encode (json_quote L) (AnyMap m) = Inr b
                       \<and> variables = [FormField ''variables'' b]
                else variables = [])
         \<and> list_all2 (\<lambda>f p. \<exists>bs. R f = Reader bs None \<and> p = FormFile (Field f) (Name f) bs)
              (files req) fileParts"
proof -
  from assms obtain variables where
    v: "variablesField L req = Inr (variables, vb)"
    and loop: "filesLoop L (files req) ([FormField ''query'' (q req)] @ variables) = Inr parts"
    by (auto simp: formBody_def split: option.splits sum.splits prod.splits)
  from filesLoop_Inr [OF loop] obtain fileParts where
    parts: "parts = ([FormField ''query'' (q req)] @ variables) @ fileParts"
    and fs: "list_all2 (\<lambda>f p. \<exists>bs. R f = Reader bs None \<and> p = FormFile (Field f) (Name f) bs)
              (files req) fileParts"
    by blast
  from parts have "parts = FormField ''query'' (q req) # variables @ fileParts"
    by simp
  with variablesField_Inr [OF v] fs show ?thesis
    by (intro exI [where x = variables] exI [where x = fileParts] conjI)
qed

text \<open>The header of a request.\<close>

lemma Header_index_Nil: "Header_index [] k = []"
  by (simp add: Header_index_def)

lemma Header_index_Set:
  "Header_index (Header_Set h key v) k =
     (if k = CanonicalMIMEHeaderKey key then [v] else Header_index h k)"
  by (simp add: Header_index_def Header_Set_def update_conv')

lemma Header_index_Add:
  "Header_index (Header_Add h key v) k =
     (if k = CanonicalMIMEHeaderKey key then Header_index h k @ [v] else Header_index h k)"
  by (simp add: Header_index_def Header_Add_def update_conv')

lemma Header_index_Add_values:
  "Header_index (foldl (\<lambda>h v. Header_Add h key v) h vs) k =
     (if k = CanonicalMIMEHeaderKey key then Header_index h k @ vs else Header_index h k)"
  by (induction vs arbitrary: h) (simp_all add: Header_index_Add)

lemma Header_index_addHeaders:
  "Header_index (addHeaders h reqHeader) k =
     Header_index h k
     @ concat (map snd (filter (\<lambda>kv. CanonicalMIMEHeaderKey (fst kv) = k) reqHeader))"
  unfolding addHeaders_def
  by (induction reqHeader arbitrary: h) (auto simp: Header_index_Add_values)

lemma canonical_Content_Type: "CanonicalMIMEHeaderKey ''Content-Type'' = ''Content-Type''"
  by code_simp

lemma canonical_Accept: "CanonicalMIMEHeaderKey ''Accept'' = ''Accept''"
  by code_simp

lemma Run_sent_header:
  assumes "sent (Run L c cx req resp) = [r]"
  shows "header r =
     addHeaders (Header_Set (Header_Set [] ''Content-Type''
                    (if useMultipartForm c then FormDataContentType L
                     else ''application/json; charset=utf-8''))
                   ''Accept'' ''application/json; charset=utf-8'') (Header req)"
proof (cases "useMultipartForm c")
  case True
  with Run_sent [OF assms] assms have "sent (runWithPostFields L c cx req resp) = [r]"
    by auto
  from runWithPostFields_sent [OF this] obtain parts r0 where
    new: "http_NewRequest L ''POST'' (endpoint c) (Multipart (multipart_boundary L) parts) = Inr r0"
    and r: "r = outgoing (FormDataContentType L) req cx r0"
    by blast
  from r http_NewRequest_Inr [OF new] True show ?thesis
    by (simp add: outgoing_fields)
next
  case False
  with Run_sent [OF assms] assms have "sent (runWithJSON L c cx req resp) = [r]"
    by auto
  from runWithJSON_sent [OF this] obtain b r0 where
    new: "http_NewRequest L ''POST'' (endpoint c) (Raw b) = Inr r0"
    and r: "r = outgoing ''application/json; charset=utf-8'' req cx r0"
    by blast
  from r http_NewRequest_Inr [OF new] False show ?thesis
    by (simp add: outgoing_fields)
qed

text \<open>
  A request made by \<^verbatim>\<open>NewRequest\<close> has the nil map of variables; after
  \<^verbatim>\<open>Var\<close> the map is not nil, not empty, and holds the value under the key.
\<close>

lemma vars_NewRequest: "vars (NewRequest query) = None"
  by (simp add: NewRequest_def)

lemma vars_Var:
  "\<exists>m. vars (Var req key v) = Some m \<and> m \<noteq> []
       \<and> map_of m = (map_of (case vars req of None \<Rightarrow> [] | Some m \<Rightarrow> m))(key \<mapsto> v)"
proof -
  have "AList.update key v al \<noteq> []" for al :: "(string \<times> any) list"
    by (cases al) auto
  then show ?thesis
    by (simp add: Var_def update_conv')
qed

lemma files_File: "files (File req fieldname filename r) =
    files req @ [\<lparr>Field = fieldname, Name = filename, R = r\<rparr>]"
  by (simp add: File_def)

text \<open>The examples: what the clients send, and what the server answers.\<close>

lemma sent_json_client:
  "sent (Run go_stdlib (json_client code b) Active (NewRequest ''query {}'') resp) = [json_request]"
  by (simp add: Run_def NewClient_def json_client_def WithHTTPClient_def NewRequest_def
      runWithJSON_def json_Encode_def Let_def go_stdlib_def quote_ascii_def http_NewRequest_def
      outgoing_def Header_Set_def addHeaders_def sent_exchange json_request_def
      CanonicalMIMEHeaderKey_def validHeaderFieldByte_def)

lemma sent_multipart_client:
  "sent (Run go_stdlib (multipart_client code b) Active (NewRequest ''query {}'') resp) =
     [multipart_request]"
  by (simp add: Run_def NewClient_def multipart_client_def WithHTTPClient_def
      UseMultipartForm_def NewRequest_def runWithPostFields_def formBody_def variablesField_def
      FormDataContentType_def Let_def go_stdlib_def quote_ascii_def http_NewRequest_def
      outgoing_def Header_Set_def addHeaders_def sent_exchange multipart_request_def
      CanonicalMIMEHeaderKey_def validHeaderFieldByte_def)

lemma httpClient_json_client: "httpClient (json_client code b) = Some (server code b)"
  by (simp add: json_client_def NewClient_def WithHTTPClient_def)

lemma httpClient_multipart_client: "httpClient (multipart_client code b) = Some (server code b)"
  by (simp add: multipart_client_def NewClient_def WithHTTPClient_def UseMultipartForm_def)

lemma server_answer: "server code b r = Inr \<lparr>StatusCode = code, Body = Reader b None\<rparr>"
  by (simp add: server_def)

lemma server_body: "io_Copy (Body \<lparr>StatusCode = code, Body = Reader b None\<rparr>) = Inr b"
  by simp

lemma sent_vars_request:
  "sent (Run go_stdlib (json_client 200 ''null'') Active vars_request None) = [json_vars_request]"
  by code_simp

lemma sent_upload_request:
  "sent (Run go_stdlib (multipart_client 200 ''null'') Active upload_request None) =
     [multipart_upload_request]"
  by code_simp

lemma sent_header_request:
  "sent (Run go_stdlib (json_client 200 ''null'') Active header_request None) =
     [json_header_request]"
  by code_simp

text \<open>What the decoder of the examples stores for three bodies.\<close>

lemma two_errors_decoded:
  \<open>json_Decode go_stdlib ''{"errors":[{"message":"bad"},{"message":"worse"}]}''
     \<lparr>Data = resp, Errors = []\<rparr> =
   \<lparr>decode_err = None, gr_nil = False,
    gr_after = \<lparr>Data = resp, Errors = [\<lparr>Message = ''bad''\<rparr>, \<lparr>Message = ''worse''\<rparr>]\<rparr>\<rparr>\<close>
  by code_simp

lemma data_decoded:
  \<open>json_Decode go_stdlib ''{"data":{"something":"yes"}}'' \<lparr>Data = Some None, Errors = []\<rparr> =
   \<lparr>decode_err = None, gr_nil = False,
    gr_after = \<lparr>Data = Some (Some [(''something'', AnyString ''yes'')]), Errors = []\<rparr>\<rparr>\<close>
  by code_simp

lemma data_and_errors_decoded:
  \<open>json_Decode go_stdlib ''{"data":{"something":"yes"},"errors":[{"message":"bad"}]}''
     \<lparr>Data = Some None, Errors = []\<rparr> =
   \<lparr>decode_err = None, gr_nil = False,
    gr_after = \<lparr>Data = Some (Some [(''something'', AnyString ''yes'')]),
                Errors = [\<lparr>Message = ''bad''\<rparr>]\<rparr>\<rparr>\<close>
  by code_simp

lemma null_decoded:
  "json_Decode go_stdlib ''null'' \<lparr>Data = resp, Errors = []\<rparr> =
   \<lparr>decode_err = None, gr_nil = True, gr_after = \<lparr>Data = resp, Errors = []\<rparr>\<rparr>"
  by code_simp

section \<open>The checks before any network activity\<close>

text \<open>
  Claim C5. For every request and every context that is already signaled when
  \<^verbatim>\<open>Run\<close> is invoked, \<^verbatim>\<open>Run\<close> returns the error of the context and
  hands no request to the HTTP client (nor logs anything, nor touches the
  destination).
\<close>

theorem Run_signaled:
  "Run L c (Signaled e) req resp = \<lparr>returned = Err e, dest = resp, sent = [], logged = []\<rparr>"
  by (simp add: Run_def)

theorem Run_signaled_witness:
  "returned (Run go_stdlib (multipart_client 200 ''null'') canceled files_request None)
     = Err (ErrorValue ''context canceled'')
   \<and> sent (Run go_stdlib (multipart_client 200 ''null'') canceled files_request None) = []"
  using Run_signaled [of go_stdlib "multipart_client 200 ''null''" "ErrorValue ''context canceled''"
      files_request None]
  by (simp add: canceled_def)

text \<open>
  Claim C6. For every request that carries one or more file attachments, on a client
  that is not in multipart mode: no request is handed to the HTTP client and
  \<^verbatim>\<open>Run\<close> returns an error, whatever the context; with a context that is not
  already signaled (the check of claim C5 comes first, see claim C10) the error is the
  configuration error \<^verbatim>\<open>cannot send files with PostFields option\<close>.
\<close>

theorem Run_files_without_multipart:
  assumes "length (files req) > 0" and "\<not> useMultipartForm c"
  shows "sent (Run L c cx req resp) = []
       \<and> returned (Run L c cx req resp) =
           Err (case cx of Signaled e \<Rightarrow> e
                | Active \<Rightarrow> New ''cannot send files with PostFields option'')
       \<and> returned (Run L c Active req resp) =
           Err (New ''cannot send files with PostFields option'')
       \<and> dest (Run L c cx req resp) = resp"
  using assms by (simp add: Run_def split: Context.split)

theorem Run_files_without_multipart_witness:
  "length (files files_request) > 0
   \<and> \<not> useMultipartForm (json_client 200 ''null'')
   \<and> sent (Run go_stdlib (json_client 200 ''null'') Active files_request None) = []
   \<and> returned (Run go_stdlib (json_client 200 ''null'') Active files_request None) =
       Err (New ''cannot send files with PostFields option'')"
proof -
  have h1: "length (files files_request) > 0"
    by (simp add: files_request_def File_def NewRequest_def)
  have h2: "\<not> useMultipartForm (json_client 200 ''null'')"
    by (simp add: json_client_def NewClient_def WithHTTPClient_def)
  from Run_files_without_multipart [OF h1 h2, of go_stdlib Active None] h1 h2
  show ?thesis by simp
qed

text \<open>
  Claim C10. The check of the context comes before the check of the files: for every
  request that carries file attachments, on a client that is not in multipart mode,
  invoked with an already signaled context, \<^verbatim>\<open>Run\<close> returns the error of the
  context; the same call with a context that is not signaled returns the
  configuration error.
\<close>

theorem Run_signaled_before_files:
  assumes "length (files req) > 0" and "\<not> useMultipartForm c"
  shows "returned (Run L c (Signaled e) req resp) = Err e
       \<and> returned (Run L c Active req resp) =
           Err (New ''cannot send files with PostFields option'')"
  using assms by (simp add: Run_def)

theorem Run_signaled_before_files_witness:
  "length (files files_request) > 0
   \<and> \<not> useMultipartForm (json_client 200 ''null'')
   \<and> returned (Run go_stdlib (json_client 200 ''null'') canceled files_request None) =
       Err (ErrorValue ''context canceled'')
   \<and> returned (Run go_stdlib (json_client 200 ''null'') canceled files_request None) \<noteq>
       Err (New ''cannot send files with PostFields option'')"
proof -
  have h1: "length (files files_request) > 0"
    by (simp add: files_request_def File_def NewRequest_def)
  have h2: "\<not> useMultipartForm (json_client 200 ''null'')"
    by (simp add: json_client_def NewClient_def WithHTTPClient_def)
  from Run_signaled_before_files [OF h1 h2, of go_stdlib "ErrorValue ''context canceled''" None]
    h1 h2
  show ?thesis by (simp add: canceled_def)
qed

section \<open>The response\<close>

text \<open>
  Claim C1. For every HTTP response whose body fails to decode into the envelope: if
  the status code is not 200, \<^verbatim>\<open>Run\<close> returns the status code error, whose
  message ends with the decimal status code, and not the decode error; if the status
  code is 200, \<^verbatim>\<open>Run\<close> returns the decode error, wrapped as
  \<^verbatim>\<open>decoding response: ...\<close>. The client is any client, in JSON mode or in
  multipart mode; \<open>r\<close> is the request it has handed to the HTTP client, \<open>res\<close> the
  response, \<open>buf\<close> the buffered body.
\<close>

theorem Run_decode_failure:
  assumes "sent (Run L c cx req resp) = [r]"
    and "httpClient c = Some do" and "do r = Inr res" and "io_Copy (Body res) = Inr buf"
    and "decode_err (json_Decode L buf \<lparr>Data = resp, Errors = []\<rparr>) = Some e"
  shows "returned (Run L c cx req resp) =
           (if StatusCode res \<noteq> 200 then Err (StatusCodeErrorf (StatusCode res))
            else Err (Errorf ''decoding response'' e))
       \<and> Error (StatusCodeErrorf (StatusCode res)) =
           ''graphql: server returned a non-200 status code: '' @ string_of_int (StatusCode res)
       \<and> Error (Errorf ''decoding response'' e) = ''decoding response: '' @ Error e"
  using Run_response(1) [OF assms(1-4)] assms(5) by simp

theorem Run_decode_failure_witness:
  "sent (Run go_stdlib (json_client 500 ''Internal Server Error'') Active
           (NewRequest ''query {}'') (Some None)) = [json_request]
   \<and> httpClient (json_client 500 ''Internal Server Error'') =
       Some (server 500 ''Internal Server Error'')
   \<and> server 500 ''Internal Server Error'' json_request =
       Inr \<lparr>StatusCode = 500, Body = Reader ''Internal Server Error'' None\<rparr>
   \<and> io_Copy (Reader ''Internal Server Error'' None) = Inr ''Internal Server Error''
   \<and> decode_err (json_Decode go_stdlib ''Internal Server Error''
         \<lparr>Data = Some None, Errors = []\<rparr>) = Some (ErrorValue ''invalid character'')
   \<and> returned (Run go_stdlib (json_client 500 ''Internal Server Error'') Active
                (NewRequest ''query {}'') (Some None)) = Err (StatusCodeErrorf 500)
   \<and> Error (StatusCodeErrorf 500) = ''graphql: server returned a non-200 status code: 500''
   \<and> sent (Run go_stdlib (multipart_client 200 ''Internal Server Error'') Active
             (NewRequest ''query {}'') (Some None)) = [multipart_request]
   \<and> returned (Run go_stdlib (multipart_client 200 ''Internal Server Error'') Active
                (NewRequest ''query {}'') (Some None)) =
       Err (Errorf ''decoding response'' (ErrorValue ''invalid character''))"
proof -
  have h5: "decode_err (json_Decode go_stdlib ''Internal Server Error''
              \<lparr>Data = Some None, Errors = []\<rparr>) = Some (ErrorValue ''invalid character'')"
    by (simp add: go_stdlib_def goDecode_def documents_def)
  have n: "string_of_int 500 = ''500''"
    by code_simp
  from Run_decode_failure [OF sent_json_client httpClient_json_client server_answer server_body h5]
    Run_decode_failure [OF sent_multipart_client httpClient_multipart_client server_answer
      server_body h5]
    sent_json_client [of 500 "''Internal Server Error''" "Some None"]
    sent_multipart_client [of 200 "''Internal Server Error''" "Some None"]
    httpClient_json_client [of 500 "''Internal Server Error''"]
    server_answer [of 500 "''Internal Server Error''" json_request] h5 n
  show ?thesis by simp
qed

text \<open>
  Claim C2. For every response whose envelope decodes with a non-empty sequence of
  errors, \<^verbatim>\<open>Run\<close> returns the first error of the sequence, whatever the
  others are, and the message of the returned error is \<^verbatim>\<open>graphql: \<close> followed
  by the \<^verbatim>\<open>Message\<close> of that first entry.
\<close>

theorem Run_first_error:
  assumes "sent (Run L c cx req resp) = [r]"
    and "httpClient c = Some do" and "do r = Inr res" and "io_Copy (Body res) = Inr buf"
    and "decode_err (json_Decode L buf \<lparr>Data = resp, Errors = []\<rparr>) = None"
    and "\<not> gr_nil (json_Decode L buf \<lparr>Data = resp, Errors = []\<rparr>)"
    and "Errors (gr_after (json_Decode L buf \<lparr>Data = resp, Errors = []\<rparr>)) = first # others"
  shows "returned (Run L c cx req resp) = Err (GraphErr first)
       \<and> Error (GraphErr first) = ''graphql: '' @ Message first"
  using Run_response(1) [OF assms(1-4)] assms(5-7) by (simp add: graphErr_Error_def)

theorem Run_first_error_witness:
  \<open>sent (Run go_stdlib (json_client 200 ''{"errors":[{"message":"bad"},{"message":"worse"}]}'')
           Active (NewRequest ''query {}'') (Some None)) = [json_request]
   \<and> decode_err (json_Decode go_stdlib ''{"errors":[{"message":"bad"},{"message":"worse"}]}''
         \<lparr>Data = Some None, Errors = []\<rparr>) = None
   \<and> Errors (gr_after (json_Decode go_stdlib
         ''{"errors":[{"message":"bad"},{"message":"worse"}]}''
         \<lparr>Data = Some None, Errors = []\<rparr>)) = [\<lparr>Message = ''bad''\<rparr>, \<lparr>Message = ''worse''\<rparr>]
   \<and> returned (Run go_stdlib
         (json_client 200 ''{"errors":[{"message":"bad"},{"message":"worse"}]}'')
         Active (NewRequest ''query {}'') (Some None)) = Err (GraphErr \<lparr>Message = ''bad''\<rparr>)
   \<and> Error (GraphErr \<lparr>Message = ''bad''\<rparr>) = ''graphql: bad''\<close>
proof -
  note d = two_errors_decoded [of "Some None"]
  have h5: \<open>decode_err (json_Decode go_stdlib
      ''{"errors":[{"message":"bad"},{"message":"worse"}]}''
      \<lparr>Data = Some None, Errors = []\<rparr>) = None\<close>
    by (simp add: d)
  have h6: \<open>\<not> gr_nil (json_Decode go_stdlib
      ''{"errors":[{"message":"bad"},{"message":"worse"}]}''
      \<lparr>Data = Some None, Errors = []\<rparr>)\<close>
    by (simp add: d)
  have h7: \<open>Errors (gr_after (json_Decode go_stdlib
      ''{"errors":[{"message":"bad"},{"message":"worse"}]}''
      \<lparr>Data = Some None, Errors = []\<rparr>)) = \<lparr>Message = ''bad''\<rparr> # [\<lparr>Message = ''worse''\<rparr>]\<close>
    by (simp add: d)
  from Run_first_error [OF sent_json_client httpClient_json_client server_answer server_body
      h5 h6 h7] sent_json_client h5 h7
  show ?thesis by simp
qed

text \<open>
  Claim C3, as stated, fails: when the envelope decodes with a non-empty sequence of
  errors, the destination is not left unpopulated. \<^verbatim>\<open>gr.Data\<close> holds the
  caller's pointer, the decoder stores the \<^verbatim>\<open>data\<close> member through it while
  it decodes, and \<^verbatim>\<open>Run\<close> returns the error without undoing that. The
  destination is a nil \<^verbatim>\<open>map[string]interface{}\<close> before the call; after it,
  the caller holds the error \<^verbatim>\<open>graphql: bad\<close> and a map with the key
  \<^verbatim>\<open>something\<close>.
\<close>

theorem Run_error_discards_data_counterexample:
  \<open>sent (Run go_stdlib
           (json_client 200 ''{"data":{"something":"yes"},"errors":[{"message":"bad"}]}'')
           Active (NewRequest ''query {}'') (Some None)) = [json_request]
   \<and> decode_err (json_Decode go_stdlib
         ''{"data":{"something":"yes"},"errors":[{"message":"bad"}]}''
         \<lparr>Data = Some None, Errors = []\<rparr>) = None
   \<and> Errors (gr_after (json_Decode go_stdlib
         ''{"data":{"something":"yes"},"errors":[{"message":"bad"}]}''
         \<lparr>Data = Some None, Errors = []\<rparr>)) = [\<lparr>Message = ''bad''\<rparr>]
   \<and> returned (Run go_stdlib
         (json_client 200 ''{"data":{"something":"yes"},"errors":[{"message":"bad"}]}'')
         Active (NewRequest ''query {}'') (Some None)) = Err (GraphErr \<lparr>Message = ''bad''\<rparr>)
   \<and> dest (Run go_stdlib
         (json_client 200 ''{"data":{"something":"yes"},"errors":[{"message":"bad"}]}'')
         Active (NewRequest ''query {}'') (Some None)) =
       Some (Some [(''something'', AnyString ''yes'')])
   \<and> dest (Run go_stdlib
         (json_client 200 ''{"data":{"something":"yes"},"errors":[{"message":"bad"}]}'')
         Active (NewRequest ''query {}'') (Some None)) \<noteq> Some None\<close>
  using Run_response [OF sent_json_client
      [of 200 \<open>''{"data":{"something":"yes"},"errors":[{"message":"bad"}]}''\<close> "Some None"]
      httpClient_json_client server_answer server_body]
    sent_json_client
  by (simp add: data_and_errors_decoded)

text \<open>
  Claim C3, amended. For every response whose envelope decodes with a non-empty
  sequence of errors, \<^verbatim>\<open>Run\<close> returns the first error and leaves the
  destination as the decoder has left it: \<^verbatim>\<open>Run\<close> itself neither writes to
  the destination nor restores it.
\<close>

theorem Run_error_keeps_decoded_data:
  assumes "sent (Run L c cx req resp) = [r]"
    and "httpClient c = Some do" and "do r = Inr res" and "io_Copy (Body res) = Inr buf"
    and "decode_err (json_Decode L buf \<lparr>Data = resp, Errors = []\<rparr>) = None"
    and "\<not> gr_nil (json_Decode L buf \<lparr>Data = resp, Errors = []\<rparr>)"
    and "Errors (gr_after (json_Decode L buf \<lparr>Data = resp, Errors = []\<rparr>)) = first # others"
  shows "returned (Run L c cx req resp) = Err (GraphErr first)
       \<and> dest (Run L c cx req resp) =
           Data (gr_after (json_Decode L buf \<lparr>Data = resp, Errors = []\<rparr>))"
  using Run_response [OF assms(1-4)] assms(5-7) by simp

theorem Run_error_keeps_decoded_data_witness:
  \<open>sent (Run go_stdlib
           (multipart_client 400 ''{"data":{"something":"yes"},"errors":[{"message":"bad"}]}'')
           Active (NewRequest ''query {}'') (Some None)) = [multipart_request]
   \<and> decode_err (json_Decode go_stdlib
         ''{"data":{"something":"yes"},"errors":[{"message":"bad"}]}''
         \<lparr>Data = Some None, Errors = []\<rparr>) = None
   \<and> Errors (gr_after (json_Decode go_stdlib
         ''{"data":{"something":"yes"},"errors":[{"message":"bad"}]}''
         \<lparr>Data = Some None, Errors = []\<rparr>)) = [\<lparr>Message = ''bad''\<rparr>]
   \<and> returned (Run go_stdlib
         (multipart_client 400 ''{"data":{"something":"yes"},"errors":[{"message":"bad"}]}'')
         Active (NewRequest ''query {}'') (Some None)) = Err (GraphErr \<lparr>Message = ''bad''\<rparr>)
   \<and> dest (Run go_stdlib
         (multipart_client 400 ''{"data":{"something":"yes"},"errors":[{"message":"bad"}]}'')
         Active (NewRequest ''query {}'') (Some None)) =
       Some (Some [(''something'', AnyString ''yes'')])\<close>
proof -
  note d = data_and_errors_decoded
  have h5: \<open>decode_err (json_Decode go_stdlib
      ''{"data":{"something":"yes"},"errors":[{"message":"bad"}]}''
      \<lparr>Data = Some None, Errors = []\<rparr>) = None\<close>
    by (simp add: d)
  have h6: \<open>\<not> gr_nil (json_Decode go_stdlib
      ''{"data":{"something":"yes"},"errors":[{"message":"bad"}]}''
      \<lparr>Data = Some None, Errors = []\<rparr>)\<close>
    by (simp add: d)
  have h7: \<open>Errors (gr_after (json_Decode go_stdlib
      ''{"data":{"something":"yes"},"errors":[{"message":"bad"}]}''
      \<lparr>Data = Some None, Errors = []\<rparr>)) = \<lparr>Message = ''bad''\<rparr> # []\<close>
    by (simp add: d)
  from Run_error_keeps_decoded_data [OF sent_multipart_client httpClient_multipart_client
      server_answer server_body h5 h6 h7] sent_multipart_client h5 h7
  show ?thesis by (simp add: d)
qed

text \<open>
  Claim C4. For every response whose envelope decodes with an empty sequence of
  errors, \<^verbatim>\<open>Run\<close> returns nil, whatever the status code of the response. The
  code breaks this on the response body \<^verbatim>\<open>null\<close>:
  \<^verbatim>\<open>Decode(&gr)\<close> receives the address of the pointer \<^verbatim>\<open>gr\<close>, returns no
  error and sets \<^verbatim>\<open>gr\<close> to nil; no error has been decoded; and
  \<^verbatim>\<open>len(gr.Errors)\<close> then dereferences the nil pointer, so that
  \<^verbatim>\<open>Run\<close> panics instead of returning nil, in JSON mode and in multipart
  mode.
\<close>

theorem Run_null_body_panics:
  "sent (Run go_stdlib (json_client 200 ''null'') Active (NewRequest ''query {}'') (Some None)) =
     [json_request]
   \<and> httpClient (json_client 200 ''null'') = Some (server 200 ''null'')
   \<and> server 200 ''null'' json_request = Inr \<lparr>StatusCode = 200, Body = Reader ''null'' None\<rparr>
   \<and> io_Copy (Reader ''null'' None) = Inr ''null''
   \<and> decode_err (json_Decode go_stdlib ''null'' \<lparr>Data = Some None, Errors = []\<rparr>) = None
   \<and> Errors (gr_after (json_Decode go_stdlib ''null'' \<lparr>Data = Some None, Errors = []\<rparr>)) = []
   \<and> gr_nil (json_Decode go_stdlib ''null'' \<lparr>Data = Some None, Errors = []\<rparr>)
   \<and> returned (Run go_stdlib (json_client 200 ''null'') Active (NewRequest ''query {}'')
         (Some None)) = Panic
   \<and> returned (Run go_stdlib (json_client 200 ''null'') Active (NewRequest ''query {}'')
         (Some None)) \<noteq> Ok
   \<and> sent (Run go_stdlib (multipart_client 200 ''null'') Active (NewRequest ''query {}'')
         (Some None)) = [multipart_request]
   \<and> returned (Run go_stdlib (multipart_client 200 ''null'') Active (NewRequest ''query {}'')
         (Some None)) = Panic"
  using Run_response(1) [OF sent_json_client [of 200 "''null''" "Some None"]
      httpClient_json_client server_answer server_body]
    Run_response(1) [OF sent_multipart_client [of 200 "''null''" "Some None"]
      httpClient_multipart_client server_answer server_body]
    sent_json_client [of 200 "''null''" "Some None"]
    sent_multipart_client [of 200 "''null''" "Some None"]
    httpClient_json_client [of 200 "''null''"]
    server_answer [of 200 "''null''" json_request]
  by (simp add: null_decoded)

text \<open>
  The same holds of every decoder and every response: when the decoding returns no
  error and leaves \<^verbatim>\<open>gr\<close> nil, \<^verbatim>\<open>Run\<close> panics, whatever the status code.
\<close>

lemma Run_nil_gr:
  assumes "sent (Run L c cx req resp) = [r]"
    and "httpClient c = Some do" and "do r = Inr res" and "io_Copy (Body res) = Inr buf"
    and "decode_err (json_Decode L buf \<lparr>Data = resp, Errors = []\<rparr>) = None"
    and "gr_nil (json_Decode L buf \<lparr>Data = resp, Errors = []\<rparr>)"
  shows "returned (Run L c cx req resp) = Panic"
  using Run_response(1) [OF assms(1-4)] assms(5-6) by simp

text \<open>
  On every other response that decodes with an empty sequence of errors, that is,
  whenever \<^verbatim>\<open>gr\<close> is not nil after the decoding, the code does what the claim
  says: \<^verbatim>\<open>Run\<close> returns nil whatever the status code, which is looked at only
  when the decoding fails, and the destination is as the decoder has left it. The
  example is a response with the status code 500.
\<close>

lemma Run_success_gr_not_nil:
  assumes "sent (Run L c cx req resp) = [r]"
    and "httpClient c = Some do" and "do r = Inr res" and "io_Copy (Body res) = Inr buf"
    and "decode_err (json_Decode L buf \<lparr>Data = resp, Errors = []\<rparr>) = None"
    and "\<not> gr_nil (json_Decode L buf \<lparr>Data = resp, Errors = []\<rparr>)"
    and "Errors (gr_after (json_Decode L buf \<lparr>Data = resp, Errors = []\<rparr>)) = []"
  shows "returned (Run L c cx req resp) = Ok
       \<and> dest (Run L c cx req resp) =
           Data (gr_after (json_Decode L buf \<lparr>Data = resp, Errors = []\<rparr>))"
  using Run_response [OF assms(1-4)] assms(5-7) by simp

lemma Run_success_gr_not_nil_example:
  \<open>sent (Run go_stdlib (multipart_client 500 ''{"data":{"something":"yes"}}'')
           Active (NewRequest ''query {}'') (Some None)) = [multipart_request]
   \<and> server 500 ''{"data":{"something":"yes"}}'' multipart_request =
       Inr \<lparr>StatusCode = 500, Body = Reader ''{"data":{"something":"yes"}}'' None\<rparr>
   \<and> decode_err (json_Decode go_stdlib ''{"data":{"something":"yes"}}''
         \<lparr>Data = Some None, Errors = []\<rparr>) = None
   \<and> Errors (gr_after (json_Decode go_stdlib ''{"data":{"something":"yes"}}''
         \<lparr>Data = Some None, Errors = []\<rparr>)) = []
   \<and> returned (Run go_stdlib (multipart_client 500 ''{"data":{"something":"yes"}}'')
         Active (NewRequest ''query {}'') (Some None)) = Ok
   \<and> dest (Run go_stdlib (multipart_client 500 ''{"data":{"something":"yes"}}'')
         Active (NewRequest ''query {}'') (Some None)) =
       Some (Some [(''something'', AnyString ''yes'')])\<close>
proof -
  note d = data_decoded
  have h5: \<open>decode_err (json_Decode go_stdlib ''{"data":{"something":"yes"}}''
      \<lparr>Data = Some None, Errors = []\<rparr>) = None\<close>
    by (simp add: d)
  have h6: \<open>\<not> gr_nil (json_Decode go_stdlib ''{"data":{"something":"yes"}}''
      \<lparr>Data = Some None, Errors = []\<rparr>)\<close>
    by (simp add: d)
  have h7: \<open>Errors (gr_after (json_Decode go_stdlib ''{"data":{"something":"yes"}}''
      \<lparr>Data = Some None, Errors = []\<rparr>)) = []\<close>
    by (simp add: d)
  from Run_success_gr_not_nil [OF sent_multipart_client httpClient_multipart_client
      server_answer server_body h5 h6 h7] sent_multipart_client h5 h7
    server_answer [of 500 \<open>''{"data":{"something":"yes"}}''\<close> multipart_request]
  show ?thesis by (simp add: d)
qed

section \<open>The outgoing request\<close>

text \<open>
  Claim C7. In JSON mode, the body of the request that \<^verbatim>\<open>Run\<close> sends is the
  JSON object with the members \<^verbatim>\<open>query\<close> and \<^verbatim>\<open>variables\<close>, followed by
  a newline. \<^verbatim>\<open>query\<close> is the string literal of the query. For a request with
  no variable set (the nil map) \<^verbatim>\<open>variables\<close> is \<^verbatim>\<open>null\<close>; for a request
  with the map \<open>m\<close> of variables it is an object with one member per entry of \<open>m\<close>,
  in the order of the keys: the literal of the key, a colon, the encoding of the value.
\<close>

theorem Run_json_body:
  assumes "sent (Run L c cx req resp) = [r]" and "\<not> useMultipartForm c"
  shows \<open>(vars req = None \<longrightarrow>
            payload r = Raw (''{"query":'' @ json_quote L (q req) @ '',"variables":null}\<newline>''))
       \<and> (\<forall>m. vars req = Some m \<longrightarrow>
            (\<exists>members.
               list_all2 (\<lambda>kv mb. \<exists>v. json_value (json_quote L) (snd kv) = Inr v
                                     \<and> mb = json_quote L (fst kv) @ '':'' @ v)
                 (sort_key fst m) members
             \<and> payload r = Raw (''{"query":'' @ json_quote L (q req) @ '',"variables":{''
                                @ commas members @ ''}}\<newline>'')))\<close>
proof -
  from Run_sent [OF assms(1)] assms have "sent (runWithJSON L c cx req resp) = [r]"
    by auto
  from runWithJSON_sent [OF this] obtain b r0 where
    enc: "json_Encode (json_quote L)
             (AnyStruct [(''query'', AnyString (q req)),
                         (''variables'', case vars req of None \<Rightarrow> AnyNil | Some m \<Rightarrow> AnyMap m)]) = Inr b"
    and new: "http_NewRequest L ''POST'' (endpoint c) (Raw b) = Inr r0"
    and r: "r = outgoing ''application/json; charset=utf-8'' req cx r0"
    by blast
  from r http_NewRequest_Inr [OF new] have payload: "payload r = Raw b"
    by (simp add: outgoing_fields)
  show ?thesis
  proof (cases "vars req")
    case None
    with enc payload show ?thesis
      by (simp add: json_Encode_def json_value_requestBodyObj)
  next
    case (Some m)
    from enc Some obtain vb where vb: "json_value (json_quote L) (AnyMap m) = Inr vb"
      and b: "b = ''{'' @ [CHR 0x22] @ ''query'' @ [CHR 0x22] @ '':'' @ json_quote L (q req) @ '',''
                      @ [CHR 0x22] @ ''variables'' @ [CHR 0x22] @ '':'' @ vb @ ''}'' @ [CHR 0x0A]"
      by (auto simp: json_Encode_def json_value_requestBodyObj split: sum.splits)
    from vb obtain members where
      "list_all2 (\<lambda>kv mb. \<exists>v. json_value (json_quote L) (snd kv) = Inr v
                                     \<and> mb = json_quote L (fst kv) @ '':'' @ v)
                 (sort_key fst m) members" and "vb = ''{'' @ commas members @ ''}''"
      using json_value_AnyMap by blast
    with b payload Some show ?thesis
      by auto
  qed
qed

theorem Run_json_body_witness:
  \<open>\<not> useMultipartForm (json_client 200 ''null'')
   \<and> sent (Run go_stdlib (json_client 200 ''null'') Active (NewRequest ''query {}'') None) =
       [json_request]
   \<and> vars (NewRequest ''query {}'') = None
   \<and> payload json_request = Raw ''{"query":"query {}","variables":null}\<newline>''
   \<and> sent (Run go_stdlib (json_client 200 ''null'') Active vars_request None) =
       [json_vars_request]
   \<and> vars vars_request = Some [(''username'', AnyString ''matryer'')]
   \<and> payload json_vars_request =
       Raw ''{"query":"query {}","variables":{"username":"matryer"}}\<newline>''\<close>
proof -
  have h2: "\<not> useMultipartForm (json_client 200 ''null'')"
    by (simp add: json_client_def NewClient_def WithHTTPClient_def)
  have v1: "vars (NewRequest ''query {}'') = None"
    by (simp add: NewRequest_def)
  have v2: "vars vars_request = Some [(''username'', AnyString ''matryer'')]"
    by (simp add: vars_request_def Var_def NewRequest_def)
  have q1: "q (NewRequest ''query {}'') = ''query {}''" "q vars_request = ''query {}''"
    by (simp_all add: vars_request_def Var_def NewRequest_def)
  from Run_json_body [OF sent_json_client [of 200 "''null''" None] h2]
    Run_json_body [OF sent_vars_request h2]
    sent_json_client [of 200 "''null''" None] sent_vars_request h2 v1 v2 q1
  show ?thesis
    by (simp add: go_stdlib_def quote_ascii_def list_all2_Cons1)
qed

text \<open>
  Claim C8. In multipart mode, the body of the request that \<^verbatim>\<open>Run\<close> sends is
  made of: the field \<^verbatim>\<open>query\<close> with the query string as it is; then the field
  \<^verbatim>\<open>variables\<close> with the JSON encoding of the map of variables, present if
  and only if the map has an entry; then one file part per attachment, in the order of
  \<^verbatim>\<open>req.files\<close>, with the field name, the file name and all the bytes of the
  attachment's reader.
\<close>

theorem Run_multipart_body:
  assumes "sent (Run L c cx req resp) = [r]" and "useMultipartForm c"
  shows "\<exists>variables fileParts.
           payload r = Multipart (multipart_boundary L)
                         (FormField ''query'' (q req) # variables @ fileParts)
         \<and> (case vars req of
              None \<Rightarrow> variables = []
            | Some m \<Rightarrow>
                if length m > 0
                then \<exists>b. json_Encode (json_quote L) (AnyMap m) = Inr b
                       \<and> variables = [FormField ''variables'' b]
                else variables = [])
         \<and> list_all2 (\<lambda>f p. \<exists>bs. R f = Reader bs None \<and> p = FormFile (Field f) (Name f) bs)
              (files req) fileParts"
proof -
  from Run_sent [OF assms(1)] assms have "sent (runWithPostFields L c cx req resp) = [r]"
    by auto
  from runWithPostFields_sent [OF this] obtain parts vb r0 where
    body: "formBody L req = Inr (parts, vb)"
    and new: "http_NewRequest L ''POST'' (endpoint c) (Multipart (multipart_boundary L) parts) = Inr r0"
    and r: "r = outgoing (FormDataContentType L) req cx r0"
    by blast
  from r http_NewRequest_Inr [OF new]
  have payload: "payload r = Multipart (multipart_boundary L) parts"
    by (simp add: outgoing_fields)
  from formBody_Inr [OF body] obtain variables fileParts where
    "parts = FormField ''query'' (q req) # variables @ fileParts"
    and "case vars req of
              None \<Rightarrow> variables = []
            | Some m \<Rightarrow>
                if length m > 0
                then \<exists>b. json_Encode (json_quote L) (AnyMap m) = Inr b
                       \<and> variables = [FormField ''variables'' b]
                else variables = []"
    and "list_all2 (\<lambda>f p. \<exists>bs. R f = Reader bs None \<and> p = FormFile (Field f) (Name f) bs)
              (files req) fileParts"
    by blast
  with payload show ?thesis
    by (intro exI [where x = variables] exI [where x = fileParts] conjI) simp_all
qed

theorem Run_multipart_body_witness:
  \<open>useMultipartForm (multipart_client 200 ''null'')
   \<and> sent (Run go_stdlib (multipart_client 200 ''null'') Active upload_request None) =
       [multipart_upload_request]
   \<and> payload multipart_upload_request =
       Multipart ''1c0ffee''
         [FormField ''query'' ''query {}'',
          FormField ''variables'' ''{"username":"matryer"}\<newline>'',
          FormFile ''file'' ''filename.txt'' ''This is a file'']\<close>
proof -
  have h2: "useMultipartForm (multipart_client 200 ''null'')"
    by (simp add: multipart_client_def NewClient_def WithHTTPClient_def UseMultipartForm_def)
  from Run_multipart_body [OF sent_upload_request h2] sent_upload_request h2
  show ?thesis
    by (simp add: multipart_upload_request_def)
qed

text \<open>
  Claim C9. In both modes, the values of the headers of the request are added to the
  header of the outgoing request: every value set by the caller is among the values of
  its key, and the \<^verbatim>\<open>Content-Type\<close> and \<^verbatim>\<open>Accept\<close> values set by the
  client stay the first values of their keys, followed by what the caller has set for
  these keys.
\<close>

theorem Run_headers:
  assumes "sent (Run L c cx req resp) = [r]"
  shows "(\<forall>key vs v. (key, vs) \<in> set (Header req) \<longrightarrow> v \<in> set vs \<longrightarrow>
            v \<in> set (Header_Values (header r) key))
       \<and> Header_Values (header r) ''Content-Type'' =
           (if useMultipartForm c then FormDataContentType L
            else ''application/json; charset=utf-8'')
           # concat (map snd (filter (\<lambda>kv. CanonicalMIMEHeaderKey (fst kv) = ''Content-Type'')
                                (Header req)))
       \<and> Header_Values (header r) ''Accept'' =
           ''application/json; charset=utf-8''
           # concat (map snd (filter (\<lambda>kv. CanonicalMIMEHeaderKey (fst kv) = ''Accept'')
                                (Header req)))
       \<and> Header_Get (header r) ''Content-Type'' =
           (if useMultipartForm c then FormDataContentType L
            else ''application/json; charset=utf-8'')
       \<and> Header_Get (header r) ''Accept'' = ''application/json; charset=utf-8''"
proof -
  note h = Run_sent_header [OF assms]
  have index: "Header_index (header r) k =
      (if k = ''Accept'' then [''application/json; charset=utf-8'']
       else if k = ''Content-Type''
       then [if useMultipartForm c then FormDataContentType L
             else ''application/json; charset=utf-8'']
       else [])
      @ concat (map snd (filter (\<lambda>kv. CanonicalMIMEHeaderKey (fst kv) = k) (Header req)))" for k
    unfolding h
    by (simp add: Header_index_addHeaders Header_index_Set canonical_Content_Type canonical_Accept
        Header_index_Nil)
  have supplied: "v \<in> set (Header_Values (header r) key)"
    if "(key, vs) \<in> set (Header req)" and "v \<in> set vs" for key vs v
  proof -
    from that have "v \<in> set (concat (map snd
        (filter (\<lambda>kv. CanonicalMIMEHeaderKey (fst kv) = CanonicalMIMEHeaderKey key) (Header req))))"
      by force
    then show ?thesis
      unfolding Header_Values_def index by simp
  qed
  have ct: "Header_Values (header r) ''Content-Type'' =
           (if useMultipartForm c then FormDataContentType L
            else ''application/json; charset=utf-8'')
           # concat (map snd (filter (\<lambda>kv. CanonicalMIMEHeaderKey (fst kv) = ''Content-Type'')
                                (Header req)))"
    unfolding Header_Values_def canonical_Content_Type index by simp
  have ac: "Header_Values (header r) ''Accept'' =
           ''application/json; charset=utf-8''
           # concat (map snd (filter (\<lambda>kv. CanonicalMIMEHeaderKey (fst kv) = ''Accept'')
                                (Header req)))"
    unfolding Header_Values_def canonical_Accept index by simp
  from supplied ct ac show ?thesis
    by (simp add: Header_Get_def)
qed

theorem Run_headers_witness:
  "sent (Run go_stdlib (json_client 200 ''null'') Active header_request None) =
     [json_header_request]
   \<and> Header header_request = [(''X-Custom-Header'', [''123'']), (''content-type'', [''text/plain''])]
   \<and> Header_Values (header json_header_request) ''X-Custom-Header'' = [''123'']
   \<and> Header_Values (header json_header_request) ''Content-Type'' =
       [''application/json; charset=utf-8'', ''text/plain'']
   \<and> Header_Get (header json_header_request) ''Content-Type'' = ''application/json; charset=utf-8''
   \<and> Header_Get (header json_header_request) ''Accept'' = ''application/json; charset=utf-8''"
proof -
  have h: "Header header_request =
      [(''X-Custom-Header'', [''123'']), (''content-type'', [''text/plain''])]"
    by (simp add: header_request_def NewRequest_def)
  have m: "\<not> useMultipartForm (json_client 200 ''null'')"
    by (simp add: json_client_def NewClient_def WithHTTPClient_def)
  have c: "CanonicalMIMEHeaderKey ''content-type'' = ''Content-Type''"
    "CanonicalMIMEHeaderKey ''X-Custom-Header'' = ''X-Custom-Header''"
    by code_simp+
  have x: "Header_Values (header json_header_request) ''X-Custom-Header'' = [''123'']"
    by code_simp
  from Run_headers [OF sent_header_request] sent_header_request h m c x
  show ?thesis
    by simp
qed

end
